theory Spec2Isabelle
  imports Main "HOL-Library.Multiset"
begin

section \<open>Entities (internal/domain/entities)\<close>

text \<open>
  A Go string is modelled by the sequence of its Unicode code points (the strings a JSON
  body decodes to are valid UTF-8). \<open>uuid.UUID\<close> and \<open>time.Time\<close> are opaque to the
  code under study, which only stores, copies and compares them; they are natural numbers
  here, with \<open>0\<close> for \<open>uuid.Nil\<close> and for the zero time.
\<close>

type_synonym rune = nat
type_synonym gostring = "rune list"
type_synonym uuid = nat
type_synonym time = nat

text \<open>Writes a Go string literal of Latin-1 characters as its code points.\<close>

definition runes :: "string \<Rightarrow> gostring" where
  "runes s = map of_char s"

record Book =
  ID :: uuid
  Title :: gostring
  Author :: gostring
  Year :: int
  CreatedAt :: time
  UpdatedAt :: time

record CreateBookDTO =
  cTitle :: gostring
  cAuthor :: gostring
  cYear :: int

record UpdateBookDTO =
  uTitle :: gostring
  uAuthor :: gostring
  uYear :: int

text \<open>errors.go: the sentinel errors, compared by identity; \<open>error_text\<close> is \<open>err.Error()\<close>.\<close>

datatype error =
    ErrBookNotFound
  | ErrInvalidTitle
  | ErrInvalidAuthor
  | ErrInvalidYear
  | ErrDatabaseError
  | ErrInvalidUUID

fun error_text :: "error \<Rightarrow> string" where
  "error_text ErrBookNotFound = ''book not found''"
| "error_text ErrInvalidTitle = ''title cannot be empty''"
| "error_text ErrInvalidAuthor = ''author cannot be empty''"
| "error_text ErrInvalidYear = ''year must be between 1000 and 2034''"
| "error_text ErrDatabaseError = ''database operation failed''"
| "error_text ErrInvalidUUID = ''invalid UUID format''"

text \<open>
  \<open>unicode.IsSpace\<close> and \<open>strings.TrimSpace\<close> of the Go standard library: the white
  space of Unicode's White_Space property, removed from both ends of the string.
\<close>

definition isSpace :: "rune \<Rightarrow> bool" where
  "isSpace r \<longleftrightarrow>
     r = 0x09 \<or> r = 0x0A \<or> r = 0x0B \<or> r = 0x0C \<or> r = 0x0D \<or> r = 0x20 \<or>
     r = 0x85 \<or> r = 0xA0 \<or> r = 0x1680 \<or> (0x2000 \<le> r \<and> r \<le> 0x200A) \<or>
     r = 0x2028 \<or> r = 0x2029 \<or> r = 0x202F \<or> r = 0x205F \<or> r = 0x3000"

definition TrimSpace :: "gostring \<Rightarrow> gostring" where
  "TrimSpace s = rev (dropWhile isSpace (rev (dropWhile isSpace s)))"

text \<open>book.go, \<open>CreateBookDTO.Validate\<close> and \<open>UpdateBookDTO.Validate\<close>; \<open>None\<close> is \<open>nil\<close>.\<close>

definition CreateBookDTO_Validate :: "CreateBookDTO \<Rightarrow> error option" where
  "CreateBookDTO_Validate dto =
     (if TrimSpace (cTitle dto) = [] then Some ErrInvalidTitle
      else if TrimSpace (cAuthor dto) = [] then Some ErrInvalidAuthor
      else if cYear dto < 1000 \<or> cYear dto > 2034 then Some ErrInvalidYear
      else None)"

definition UpdateBookDTO_Validate :: "UpdateBookDTO \<Rightarrow> error option" where
  "UpdateBookDTO_Validate dto =
     (if TrimSpace (uTitle dto) = [] then Some ErrInvalidTitle
      else if TrimSpace (uAuthor dto) = [] then Some ErrInvalidAuthor
      else if uYear dto < 1000 \<or> uYear dto > 2034 then Some ErrInvalidYear
      else None)"

text \<open>
  \<open>CreateBookDTO.ToBook\<close>. The result of \<open>uuid.New()\<close> is the first argument; the
  timestamps are left at their zero value.
\<close>

definition ToBook :: "uuid \<Rightarrow> CreateBookDTO \<Rightarrow> Book" where
  "ToBook new_uuid dto =
     \<lparr>ID = new_uuid, Title = TrimSpace (cTitle dto), Author = TrimSpace (cAuthor dto),
      Year = cYear dto, CreatedAt = 0, UpdatedAt = 0\<rparr>"

text \<open>The zero value of \<open>entities.Book\<close> (\<open>var b entities.Book\<close>).\<close>

definition zeroBook :: Book where
  "zeroBook = \<lparr>ID = 0, Title = [], Author = [], Year = 0, CreatedAt = 0, UpdatedAt = 0\<rparr>"

section \<open>The store (init.sql) and the sqlx calls of the repository\<close>

text \<open>
  The \<open>books\<close> table is the list of its rows. What a statement meets outside the program
  is an explicit input: the reading of \<open>CURRENT_TIMESTAMP\<close>, the identifier that
  \<open>uuid_generate_v4()\<close> draws, and whether a call into the driver fails (lost connection,
  timeout, cancelled context). A statement that fails leaves the table as it was.
\<close>

type_synonym table = "Book list"

datatype sql_error = sql_ErrNoRows | sql_failure

record env =
  CURRENT_TIMESTAMP :: time
  uuid_generate_v4 :: uuid
  stmt_fails :: bool
  next_fails :: bool
  scan_fails :: bool
  rows_affected_fails :: bool

text \<open>
  The columns \<open>title VARCHAR(255)\<close> and \<open>author VARCHAR(255)\<close> of init.sql, on
  assignment: a value of at most 255 characters is stored as it is; a longer one is
  rejected with an error, unless every character past the 255th is a space (U+0020), in
  which case the store cuts it to its first 255 characters without an error.
\<close>

definition varchar255 :: "gostring \<Rightarrow> gostring option" where
  "varchar255 s =
     (if length s \<le> 255 then Some s
      else if list_all (\<lambda>r. r = 0x20) (drop 255 s) then Some (take 255 s)
      else None)"

text \<open>
  The named parameters \<open>:title\<close> and \<open>:author\<close> of a statement, as the columns take
  them: the book with both strings as stored, or nothing when a column rejects its value.
  The values are bound to the statement itself, so a rejected value fails the statement
  whichever rows it would touch.
\<close>

definition bind_columns :: "Book \<Rightarrow> Book option" where
  "bind_columns book =
     (case varchar255 (Title book) of
        None \<Rightarrow> None
      | Some title \<Rightarrow>
          (case varchar255 (Author book) of
             None \<Rightarrow> None
           | Some author \<Rightarrow> Some (book\<lparr>Title := title, Author := author\<rparr>)))"

text \<open>
  \<open>INSERT INTO books (title, author, year) VALUES (:title, :author, :year) RETURNING ...\<close>:
  the id and both timestamps take the column defaults; the primary key rejects an id
  that is already in the table.
\<close>

definition NamedQueryContext_INSERT :: "env \<Rightarrow> Book \<Rightarrow> table \<Rightarrow> (sql_error + Book list) \<times> table" where
  "NamedQueryContext_INSERT e book db =
     (case bind_columns book of
        None \<Rightarrow> (Inl sql_failure, db)
      | Some stored \<Rightarrow>
          if stmt_fails e \<or> uuid_generate_v4 e \<in> set (map ID db) then (Inl sql_failure, db)
          else
            (let row = \<lparr>ID = uuid_generate_v4 e, Title = Title stored, Author = Author stored,
                        Year = Year stored, CreatedAt = CURRENT_TIMESTAMP e,
                        UpdatedAt = CURRENT_TIMESTAMP e\<rparr>
             in (Inr [row], db @ [row])))"

text \<open>
  \<open>UPDATE books SET title = :title, author = :author, year = :year WHERE id = :id
  RETURNING ...\<close>, with the trigger \<open>update_books_updated_at\<close>, which sets
  \<open>NEW.updated_at = CURRENT_TIMESTAMP\<close> before each row is updated. \<open>update_row\<close> is
  the statement on one row of the table; its argument \<open>stored\<close> carries the id of the
  WHERE clause and the values as the columns hold them.
\<close>

definition update_row :: "env \<Rightarrow> Book \<Rightarrow> Book \<Rightarrow> Book" where
  "update_row e stored row =
     (if ID row = ID stored
      then row\<lparr>Title := Title stored, Author := Author stored, Year := Year stored,
               UpdatedAt := CURRENT_TIMESTAMP e\<rparr>
      else row)"

definition NamedQueryContext_UPDATE :: "env \<Rightarrow> Book \<Rightarrow> table \<Rightarrow> (sql_error + Book list) \<times> table" where
  "NamedQueryContext_UPDATE e book db =
     (case bind_columns book of
        None \<Rightarrow> (Inl sql_failure, db)
      | Some stored \<Rightarrow>
          if stmt_fails e then (Inl sql_failure, db)
          else
            (let db' = map (update_row e stored) db
             in (Inr (filter (\<lambda>row. ID row = ID stored) db'), db')))"

text \<open>\<open>rows.Next()\<close>: the next row, unless none is left or fetching it failed.\<close>

definition rows_Next :: "env \<Rightarrow> Book list \<Rightarrow> Book option" where
  "rows_Next e rows =
     (if next_fails e then None else case rows of [] \<Rightarrow> None | row # _ \<Rightarrow> Some row)"

definition rows_StructScan :: "env \<Rightarrow> Book \<Rightarrow> sql_error + Book" where
  "rows_StructScan e row = (if scan_fails e then Inl sql_failure else Inr row)"

text \<open>
  \<open>GetContext\<close> with \<open>SELECT ... FROM books WHERE id = $1\<close>: the first row scanned
  into the destination, \<open>sql.ErrNoRows\<close> when there is none.
\<close>

definition GetContext_SELECT :: "env \<Rightarrow> uuid \<Rightarrow> table \<Rightarrow> sql_error + Book" where
  "GetContext_SELECT e bid db =
     (if stmt_fails e then Inl sql_failure
      else case filter (\<lambda>row. ID row = bid) db of
             [] \<Rightarrow> Inl sql_ErrNoRows
           | row # _ \<Rightarrow> Inr row)"

text \<open>\<open>SelectContext\<close> with \<open>SELECT ... FROM books ORDER BY created_at DESC\<close>.\<close>

definition SelectContext_SELECT :: "env \<Rightarrow> table \<Rightarrow> sql_error + Book list" where
  "SelectContext_SELECT e db =
     (if stmt_fails e then Inl sql_failure else Inr (rev (sort_key CreatedAt db)))"

text \<open>
  \<open>ExecContext\<close> with \<open>DELETE FROM books WHERE id = $1\<close>; the result carries the
  number of rows deleted, which \<open>result.RowsAffected()\<close> reads.
\<close>

definition ExecContext_DELETE :: "env \<Rightarrow> uuid \<Rightarrow> table \<Rightarrow> (sql_error + nat) \<times> table" where
  "ExecContext_DELETE e bid db =
     (if stmt_fails e then (Inl sql_failure, db)
      else (Inr (length (filter (\<lambda>row. ID row = bid) db)),
            filter (\<lambda>row. ID row \<noteq> bid) db))"

definition result_RowsAffected :: "env \<Rightarrow> nat \<Rightarrow> sql_error + nat" where
  "result_RowsAffected e result = (if rows_affected_fails e then Inl sql_failure else Inr result)"

section \<open>The repository (postgresBookRepository)\<close>

text \<open>
  Each method returns the Go pair \<open>(value, error)\<close> as a sum, \<open>Inl\<close> the error, next
  to the table it leaves behind.
\<close>

definition Create :: "env \<Rightarrow> Book \<Rightarrow> table \<Rightarrow> (error + Book) \<times> table" where
  "Create e book db =
     (case NamedQueryContext_INSERT e book db of
        (Inl err, db') \<Rightarrow> (Inl ErrDatabaseError, db')
      | (Inr rows, db') \<Rightarrow>
          (case rows_Next e rows of
             Some row \<Rightarrow>
               (case rows_StructScan e row of
                  Inl err \<Rightarrow> (Inl ErrDatabaseError, db')
                | Inr createdBook \<Rightarrow> (Inr createdBook, db'))
           | None \<Rightarrow> (Inr zeroBook, db')))"

definition GetByID :: "env \<Rightarrow> uuid \<Rightarrow> table \<Rightarrow> (error + Book) \<times> table" where
  "GetByID e bid db =
     (case GetContext_SELECT e bid db of
        Inl err \<Rightarrow> (Inl ErrBookNotFound, db)
      | Inr book \<Rightarrow> (Inr book, db))"

definition GetAll :: "env \<Rightarrow> table \<Rightarrow> (error + Book list) \<times> table" where
  "GetAll e db =
     (case SelectContext_SELECT e db of
        Inl err \<Rightarrow> (Inl ErrDatabaseError, db)
      | Inr books \<Rightarrow> (Inr books, db))"

definition Update :: "env \<Rightarrow> uuid \<Rightarrow> Book \<Rightarrow> table \<Rightarrow> (error + Book) \<times> table" where
  "Update e bid book db =
     (case NamedQueryContext_UPDATE e (book\<lparr>ID := bid\<rparr>) db of
        (Inl err, db') \<Rightarrow> (Inl ErrDatabaseError, db')
      | (Inr rows, db') \<Rightarrow>
          (case rows_Next e rows of
             Some row \<Rightarrow>
               (case rows_StructScan e row of
                  Inl err \<Rightarrow> (Inl ErrDatabaseError, db')
                | Inr updatedBook \<Rightarrow> (Inr updatedBook, db'))
           | None \<Rightarrow> (Inl ErrBookNotFound, db')))"

definition Delete :: "env \<Rightarrow> uuid \<Rightarrow> table \<Rightarrow> error option \<times> table" where
  "Delete e bid db =
     (case ExecContext_DELETE e bid db of
        (Inl err, db') \<Rightarrow> (Some ErrDatabaseError, db')
      | (Inr result, db') \<Rightarrow>
          (case result_RowsAffected e result of
             Inl err \<Rightarrow> (Some ErrDatabaseError, db')
           | Inr rowsAffected \<Rightarrow>
               if rowsAffected = 0 then (Some ErrBookNotFound, db') else (None, db')))"

section \<open>The use cases (bookUseCase)\<close>

text \<open>
  The interface \<open>repositories.BookRepository\<close>: any implementation, over any state
  \<open>'s\<close>. The use cases reach storage through it only. Logging does not affect results
  and is left out.
\<close>

record 's BookRepository =
  repo_Create :: "Book \<Rightarrow> 's \<Rightarrow> (error + Book) \<times> 's"
  repo_GetByID :: "uuid \<Rightarrow> 's \<Rightarrow> (error + Book) \<times> 's"
  repo_GetAll :: "'s \<Rightarrow> (error + Book list) \<times> 's"
  repo_Update :: "uuid \<Rightarrow> Book \<Rightarrow> 's \<Rightarrow> (error + Book) \<times> 's"
  repo_Delete :: "uuid \<Rightarrow> 's \<Rightarrow> error option \<times> 's"

definition postgresBookRepository :: "env \<Rightarrow> table BookRepository" where
  "postgresBookRepository e =
     \<lparr>repo_Create = Create e, repo_GetByID = GetByID e, repo_GetAll = GetAll e,
      repo_Update = Update e, repo_Delete = Delete e\<rparr>"

definition CreateBook :: "uuid \<Rightarrow> 's BookRepository \<Rightarrow> CreateBookDTO \<Rightarrow> 's \<Rightarrow> (error + Book) \<times> 's" where
  "CreateBook new_uuid bookRepo dto s =
     (case CreateBookDTO_Validate dto of
        Some err \<Rightarrow> (Inl err, s)
      | None \<Rightarrow>
          (let book = ToBook new_uuid dto in
           case repo_Create bookRepo book s of
             (Inl err, s') \<Rightarrow> (Inl err, s')
           | (Inr createdBook, s') \<Rightarrow> (Inr createdBook, s')))"

definition GetBookByID :: "'s BookRepository \<Rightarrow> uuid \<Rightarrow> 's \<Rightarrow> (error + Book) \<times> 's" where
  "GetBookByID bookRepo bid s =
     (case repo_GetByID bookRepo bid s of
        (Inl err, s') \<Rightarrow> (Inl err, s')
      | (Inr book, s') \<Rightarrow> (Inr book, s'))"

definition GetAllBooks :: "'s BookRepository \<Rightarrow> 's \<Rightarrow> (error + Book list) \<times> 's" where
  "GetAllBooks bookRepo s =
     (case repo_GetAll bookRepo s of
        (Inl err, s') \<Rightarrow> (Inl err, s')
      | (Inr books, s') \<Rightarrow> (Inr books, s'))"

definition UpdateBook :: "'s BookRepository \<Rightarrow> uuid \<Rightarrow> UpdateBookDTO \<Rightarrow> 's \<Rightarrow> (error + Book) \<times> 's" where
  "UpdateBook bookRepo bid dto s =
     (case UpdateBookDTO_Validate dto of
        Some err \<Rightarrow> (Inl err, s)
      | None \<Rightarrow>
          (let book = \<lparr>ID = 0, Title = uTitle dto, Author = uAuthor dto, Year = uYear dto,
                       CreatedAt = 0, UpdatedAt = 0\<rparr> in
           case repo_Update bookRepo bid book s of
             (Inl err, s') \<Rightarrow> (Inl err, s')
           | (Inr updatedBook, s') \<Rightarrow> (Inr updatedBook, s')))"

definition DeleteBook :: "'s BookRepository \<Rightarrow> uuid \<Rightarrow> 's \<Rightarrow> error option \<times> 's" where
  "DeleteBook bookRepo bid s =
     (case repo_Delete bookRepo bid s of
        (Some err, s') \<Rightarrow> (Some err, s')
      | (None, s') \<Rightarrow> (None, s'))"

section \<open>The handler (bookHandler.CreateBook)\<close>

text \<open>
  A response is the status code and the JSON body that \<open>c.JSON\<close> writes. The first
  argument of the handler is the outcome of \<open>c.Bind(&dto)\<close>: the decoded request, or the
  text of the binding error.
\<close>

datatype response_body =
    ErrorResponse (Error: string) (Message: string)
  | BookBody Book

record response =
  status :: nat
  body :: response_body

definition bookHandler_CreateBook ::
    "string + CreateBookDTO \<Rightarrow> uuid \<Rightarrow> 's BookRepository \<Rightarrow> 's \<Rightarrow> response \<times> 's" where
  "bookHandler_CreateBook bound new_uuid bookRepo s =
     (case bound of
        Inl bind_error \<Rightarrow>
          (\<lparr>status = 400, body = ErrorResponse ''Invalid request body'' bind_error\<rparr>, s)
      | Inr dto \<Rightarrow>
          (case CreateBook new_uuid bookRepo dto s of
             (Inl err, s') \<Rightarrow>
               if err = ErrInvalidTitle \<or> err = ErrInvalidAuthor \<or> err = ErrInvalidYear
               then (\<lparr>status = 400,
                      body = ErrorResponse ''Validation failed'' (error_text err)\<rparr>, s')
               else (\<lparr>status = 500,
                      body = ErrorResponse ''Failed to create book'' (error_text err)\<rparr>, s')
           | (Inr book, s') \<Rightarrow> (\<lparr>status = 201, body = BookBody book\<rparr>, s')))"

section \<open>Well-formed rows\<close>

text \<open>
  The fields of a book pass the entity rules: title and author are not empty after
  trimming, the year lies in 1000..2034. A table is valid when every row is.
\<close>

definition valid_fields :: "Book \<Rightarrow> bool" where
  "valid_fields b \<longleftrightarrow>
     TrimSpace (Title b) \<noteq> [] \<and> TrimSpace (Author b) \<noteq> [] \<and> 1000 \<le> Year b \<and> Year b \<le> 2034"

definition table_valid :: "table \<Rightarrow> bool" where
  "table_valid db \<longleftrightarrow> list_all valid_fields db"

section \<open>Validation\<close>

lemma TrimSpace_empty_iff: "TrimSpace s = [] \<longleftrightarrow> (\<forall>c\<in>set s. isSpace c)"
proof
  assume "TrimSpace s = []"
  then have all_tail: "\<forall>c\<in>set (dropWhile isSpace s). isSpace c"
    by (simp add: TrimSpace_def)
  show "\<forall>c\<in>set s. isSpace c"
  proof (cases "dropWhile isSpace s = []")
    case True
    then show ?thesis by simp
  next
    case False
    then have "\<not> isSpace (hd (dropWhile isSpace s))"
      by (rule hd_dropWhile)
    moreover from False have "hd (dropWhile isSpace s) \<in> set (dropWhile isSpace s)"
      by simp
    ultimately show ?thesis using all_tail by blast
  qed
next
  assume "\<forall>c\<in>set s. isSpace c"
  then have "dropWhile isSpace s = []"
    by simp
  then show "TrimSpace s = []"
    unfolding TrimSpace_def by (simp del: dropWhile_eq_Nil_conv)
qed

text \<open>
  C2. Validation answers InvalidTitle exactly when the title is empty or consists of white
  space only; otherwise InvalidAuthor exactly when the author is; otherwise InvalidYear
  exactly when the year lies outside 1000..2034; otherwise it succeeds. The checks run in
  this order for the creation request and for the update request alike, so a blank title
  answers InvalidTitle whatever the other fields hold.
\<close>

theorem Validate_first_failure:
  "CreateBookDTO_Validate c =
     (if \<forall>r\<in>set (cTitle c). isSpace r then Some ErrInvalidTitle
      else if \<forall>r\<in>set (cAuthor c). isSpace r then Some ErrInvalidAuthor
      else if cYear c < 1000 \<or> 2034 < cYear c then Some ErrInvalidYear
      else None)
   \<and> UpdateBookDTO_Validate u =
     (if \<forall>r\<in>set (uTitle u). isSpace r then Some ErrInvalidTitle
      else if \<forall>r\<in>set (uAuthor u). isSpace r then Some ErrInvalidAuthor
      else if uYear u < 1000 \<or> 2034 < uYear u then Some ErrInvalidYear
      else None)"
  by (simp add: CreateBookDTO_Validate_def UpdateBookDTO_Validate_def TrimSpace_empty_iff)

theorem Validate_first_failure_witness:
  "CreateBookDTO_Validate \<lparr>cTitle = runes ''   '', cAuthor = runes ''X'', cYear = 2000\<rparr>
     = Some ErrInvalidTitle
   \<and> UpdateBookDTO_Validate \<lparr>uTitle = runes ''Dune'', uAuthor = runes '' '', uYear = 1965\<rparr>
     = Some ErrInvalidAuthor"
  using Validate_first_failure
    [of "\<lparr>cTitle = runes ''   '', cAuthor = runes ''X'', cYear = 2000\<rparr>"
        "\<lparr>uTitle = runes ''Dune'', uAuthor = runes '' '', uYear = 1965\<rparr>"]
  by (simp add: runes_def isSpace_def)

section \<open>The use cases delegate to the repository\<close>

lemma CreateBook_delegates:
  "CreateBookDTO_Validate dto = None \<Longrightarrow>
   CreateBook new_uuid bookRepo dto s = repo_Create bookRepo (ToBook new_uuid dto) s"
  by (simp add: CreateBook_def split: prod.splits sum.splits)

lemma UpdateBook_delegates:
  "UpdateBookDTO_Validate dto = None \<Longrightarrow>
   UpdateBook bookRepo bid dto s =
     repo_Update bookRepo bid
       \<lparr>ID = 0, Title = uTitle dto, Author = uAuthor dto, Year = uYear dto,
        CreatedAt = 0, UpdatedAt = 0\<rparr> s"
  by (simp add: UpdateBook_def split: prod.splits sum.splits)

lemma GetBookByID_delegates: "GetBookByID bookRepo bid s = repo_GetByID bookRepo bid s"
  by (simp add: GetBookByID_def split: prod.splits sum.splits)

lemma GetAllBooks_delegates: "GetAllBooks bookRepo s = repo_GetAll bookRepo s"
  by (simp add: GetAllBooks_def split: prod.splits sum.splits)

lemma DeleteBook_delegates: "DeleteBook bookRepo bid s = repo_Delete bookRepo bid s"
  by (simp add: DeleteBook_def split: prod.splits option.splits)

lemma CreateBook_rejects:
  "CreateBookDTO_Validate dto = Some err \<Longrightarrow> CreateBook new_uuid bookRepo dto s = (Inl err, s)"
  by (simp add: CreateBook_def)

lemma UpdateBook_rejects:
  "UpdateBookDTO_Validate dto = Some err \<Longrightarrow> UpdateBook bookRepo bid dto s = (Inl err, s)"
  by (simp add: UpdateBook_def)

text \<open>
  C1. When a creation or update request fails validation (title or author empty or white
  space only, or year outside 1000..2034), CreateBook and UpdateBook answer with the
  error that validation gave and hand back the state they were given. The answer is the
  same for every implementation of the repository and every state: no repository
  operation is invoked, so storage is unchanged.
\<close>

theorem validation_failure_skips_storage:
  assumes "(\<forall>r\<in>set t. isSpace r) \<or> (\<forall>r\<in>set a. isSpace r) \<or> y < 1000 \<or> 2034 < y"
  shows "\<exists>err. CreateBookDTO_Validate \<lparr>cTitle = t, cAuthor = a, cYear = y\<rparr> = Some err \<and>
           UpdateBookDTO_Validate \<lparr>uTitle = t, uAuthor = a, uYear = y\<rparr> = Some err \<and>
           (err = ErrInvalidTitle \<or> err = ErrInvalidAuthor \<or> err = ErrInvalidYear) \<and>
           (\<forall>(bookRepo :: 's BookRepository) s.
              CreateBook new_uuid bookRepo \<lparr>cTitle = t, cAuthor = a, cYear = y\<rparr> s = (Inl err, s)) \<and>
           (\<forall>(bookRepo :: 's BookRepository) s.
              UpdateBook bookRepo bid \<lparr>uTitle = t, uAuthor = a, uYear = y\<rparr> s = (Inl err, s))"
proof -
  let ?c = "\<lparr>cTitle = t, cAuthor = a, cYear = y\<rparr>"
  let ?u = "\<lparr>uTitle = t, uAuthor = a, uYear = y\<rparr>"
  have "CreateBookDTO_Validate ?c \<noteq> None"
    using assms by (auto simp: CreateBookDTO_Validate_def TrimSpace_empty_iff)
  then obtain err where c: "CreateBookDTO_Validate ?c = Some err"
    by blast
  have kind: "err = ErrInvalidTitle \<or> err = ErrInvalidAuthor \<or> err = ErrInvalidYear"
    using c by (auto simp: CreateBookDTO_Validate_def split: if_splits)
  have "UpdateBookDTO_Validate ?u = CreateBookDTO_Validate ?c"
    by (simp add: CreateBookDTO_Validate_def UpdateBookDTO_Validate_def)
  with c have u: "UpdateBookDTO_Validate ?u = Some err"
    by simp
  show ?thesis
  proof (intro exI [of _ err] conjI allI)
    show "CreateBookDTO_Validate ?c = Some err"
      by (rule c)
    show "UpdateBookDTO_Validate ?u = Some err"
      by (rule u)
    show "err = ErrInvalidTitle \<or> err = ErrInvalidAuthor \<or> err = ErrInvalidYear"
      by (rule kind)
    show "CreateBook new_uuid bookRepo ?c s = (Inl err, s)" for bookRepo :: "'s BookRepository" and s
      by (rule CreateBook_rejects [OF c])
    show "UpdateBook bookRepo bid ?u s = (Inl err, s)" for bookRepo :: "'s BookRepository" and s
      by (rule UpdateBook_rejects [OF u])
  qed
qed

theorem validation_failure_skips_storage_witness:
  "(\<forall>(bookRepo :: table BookRepository) s.
      CreateBook 7 bookRepo \<lparr>cTitle = runes ''Dune'', cAuthor = runes ''Herbert'', cYear = 2035\<rparr> s
        = (Inl ErrInvalidYear, s))
   \<and> (\<forall>(bookRepo :: table BookRepository) s.
      UpdateBook bookRepo 1 \<lparr>uTitle = runes ''Dune'', uAuthor = runes ''Herbert'', uYear = 2035\<rparr> s
        = (Inl ErrInvalidYear, s))"
proof -
  let ?t = "runes ''Dune''"
  let ?a = "runes ''Herbert''"
  have bad: "(\<forall>r\<in>set ?t. isSpace r) \<or> (\<forall>r\<in>set ?a. isSpace r) \<or> (2035::int) < 1000 \<or> (2034::int) < 2035"
    by simp
  from validation_failure_skips_storage [where 's = table, OF bad, of 7 1]
  obtain err where
    v: "CreateBookDTO_Validate \<lparr>cTitle = ?t, cAuthor = ?a, cYear = 2035\<rparr> = Some err" and
    c: "\<And>(bookRepo :: table BookRepository) s.
          CreateBook 7 bookRepo \<lparr>cTitle = ?t, cAuthor = ?a, cYear = 2035\<rparr> s = (Inl err, s)" and
    u: "\<And>(bookRepo :: table BookRepository) s.
          UpdateBook bookRepo 1 \<lparr>uTitle = ?t, uAuthor = ?a, uYear = 2035\<rparr> s = (Inl err, s)"
    by blast
  from v have "err = ErrInvalidYear"
    by (simp add: CreateBookDTO_Validate_def TrimSpace_def isSpace_def runes_def)
  with c u show ?thesis
    by simp
qed

section \<open>What trimming leaves\<close>

lemma TrimSpace_last: "TrimSpace s \<noteq> [] \<Longrightarrow> \<not> isSpace (last (TrimSpace s))"
proof -
  assume ne: "TrimSpace s \<noteq> []"
  let ?v = "dropWhile isSpace (rev (dropWhile isSpace s))"
  from ne have v: "?v \<noteq> []"
    by (simp add: TrimSpace_def del: dropWhile_eq_Nil_conv)
  then have "\<not> isSpace (hd ?v)"
    by (rule hd_dropWhile)
  moreover have "last (TrimSpace s) = hd ?v"
    using v by (simp add: TrimSpace_def last_rev del: dropWhile_eq_Nil_conv)
  ultimately show ?thesis by simp
qed

lemma TrimSpace_hd: "TrimSpace s \<noteq> [] \<Longrightarrow> \<not> isSpace (hd (TrimSpace s))"
proof -
  assume ne: "TrimSpace s \<noteq> []"
  let ?u = "dropWhile isSpace s"
  let ?v = "dropWhile isSpace (rev ?u)"
  from ne have v: "?v \<noteq> []"
    by (simp add: TrimSpace_def del: dropWhile_eq_Nil_conv)
  then have u: "?u \<noteq> []"
    by (auto simp del: dropWhile_eq_Nil_conv)
  have "hd (TrimSpace s) = last ?v"
    using v by (simp add: TrimSpace_def hd_rev del: dropWhile_eq_Nil_conv)
  also have "\<dots> = last (rev ?u)"
    using v by (metis last_appendR takeWhile_dropWhile_id)
  also have "\<dots> = hd ?u"
    using u by (simp add: last_rev)
  finally show ?thesis
    using hd_dropWhile [OF u] by simp
qed

lemma TrimSpace_TrimSpace_nonempty: "TrimSpace s \<noteq> [] \<Longrightarrow> TrimSpace (TrimSpace s) \<noteq> []"
proof -
  assume ne: "TrimSpace s \<noteq> []"
  then have "last (TrimSpace s) \<in> set (TrimSpace s)"
    by simp
  with TrimSpace_last [OF ne] show ?thesis
    by (auto simp: TrimSpace_empty_iff)
qed

lemma TrimSpace_changes:
  assumes "s \<noteq> []" and "isSpace (hd s) \<or> isSpace (last s)"
  shows "TrimSpace s \<noteq> s"
proof
  assume eq: "TrimSpace s = s"
  with assms(1) have "TrimSpace s \<noteq> []" by simp
  from TrimSpace_hd [OF this] TrimSpace_last [OF this] eq assms(2) show False
    by simp
qed

section \<open>The repository on the table\<close>

lemma varchar255_take: "varchar255 s = Some s' \<Longrightarrow> s' = take 255 s"
  by (simp add: varchar255_def split: if_splits)

lemma varchar255_short: "length s \<le> 255 \<Longrightarrow> varchar255 s = Some s"
  by (simp add: varchar255_def)

lemma varchar255_nonblank:
  assumes "varchar255 s = Some s'" and "TrimSpace s \<noteq> []"
  shows "TrimSpace s' \<noteq> []"
proof (cases "length s \<le> 255")
  case True
  with assms show ?thesis
    by (simp add: varchar255_def)
next
  case False
  with assms(1) have cut: "s' = take 255 s" and spaces: "\<forall>r\<in>set (drop 255 s). r = 0x20"
    by (simp_all add: varchar255_def list_all_iff split: if_splits)
  from assms(2) obtain r where r: "r \<in> set s" "\<not> isSpace r"
    by (auto simp: TrimSpace_empty_iff)
  have "set s = set (take 255 s) \<union> set (drop 255 s)"
    by (metis append_take_drop_id set_append)
  moreover have "r \<notin> set (drop 255 s)"
    using spaces r(2) by (auto simp: isSpace_def)
  ultimately have "r \<in> set s'"
    using r(1) cut by simp
  with r(2) show ?thesis
    by (auto simp: TrimSpace_empty_iff)
qed

lemma bind_columns_fits:
  "varchar255 (Title book) \<noteq> None \<Longrightarrow> varchar255 (Author book) \<noteq> None \<Longrightarrow>
   bind_columns book =
     Some (book\<lparr>Title := take 255 (Title book), Author := take 255 (Author book)\<rparr>)"
proof -
  assume "varchar255 (Title book) \<noteq> None" and "varchar255 (Author book) \<noteq> None"
  then obtain title author where
    stored: "varchar255 (Title book) = Some title" "varchar255 (Author book) = Some author"
    by blast
  then have "title = take 255 (Title book)" and "author = take 255 (Author book)"
    by (simp_all add: varchar255_take)
  with stored show ?thesis
    by (simp add: bind_columns_def)
qed

lemma bind_columns_ID:
  "bind_columns (book\<lparr>ID := bid\<rparr>) = map_option (\<lambda>stored. stored\<lparr>ID := bid\<rparr>) (bind_columns book)"
  by (simp add: bind_columns_def split: option.splits)

lemma bind_columns_fields:
  "bind_columns book = Some stored \<Longrightarrow>
   ID stored = ID book \<and> Year stored = Year book \<and>
   varchar255 (Title book) = Some (Title stored) \<and>
   varchar255 (Author book) = Some (Author stored)"
  by (auto simp: bind_columns_def split: option.splits)

lemma Create_cases:
  "Create e book db =
     (case bind_columns book of
        None \<Rightarrow> (Inl ErrDatabaseError, db)
      | Some stored \<Rightarrow>
          if stmt_fails e \<or> uuid_generate_v4 e \<in> ID ` set db then (Inl ErrDatabaseError, db)
          else
            (let row = \<lparr>ID = uuid_generate_v4 e, Title = Title stored, Author = Author stored,
                        Year = Year stored, CreatedAt = CURRENT_TIMESTAMP e,
                        UpdatedAt = CURRENT_TIMESTAMP e\<rparr>
             in if next_fails e then (Inr zeroBook, db @ [row])
                else if scan_fails e then (Inl ErrDatabaseError, db @ [row])
                else (Inr row, db @ [row])))"
  by (simp add: Create_def NamedQueryContext_INSERT_def rows_Next_def rows_StructScan_def Let_def
      split: option.splits)

lemma GetByID_cases:
  "GetByID e bid db =
     (if stmt_fails e then (Inl ErrBookNotFound, db)
      else case filter (\<lambda>row. ID row = bid) db of
             [] \<Rightarrow> (Inl ErrBookNotFound, db)
           | row # _ \<Rightarrow> (Inr row, db))"
  by (simp add: GetByID_def GetContext_SELECT_def split: list.splits)

lemma Delete_cases:
  "Delete e bid db =
     (if stmt_fails e then (Some ErrDatabaseError, db)
      else if rows_affected_fails e then (Some ErrDatabaseError, filter (\<lambda>row. ID row \<noteq> bid) db)
      else if bid \<notin> ID ` set db then (Some ErrBookNotFound, db)
      else (None, filter (\<lambda>row. ID row \<noteq> bid) db))"
proof -
  have none: "filter (\<lambda>row. ID row = bid) db = [] \<longleftrightarrow> bid \<notin> ID ` set db"
    by (auto simp: filter_empty_conv)
  have same: "bid \<notin> ID ` set db \<Longrightarrow> filter (\<lambda>row. ID row \<noteq> bid) db = db"
    by (rule filter_True) auto
  show ?thesis
    by (simp add: Delete_def ExecContext_DELETE_def result_RowsAffected_def none same)
qed

lemma ID_update_row [simp]: "ID (update_row e book row) = ID row"
  by (simp add: update_row_def)

lemma Update_cases:
  "Update e bid book db =
     (case bind_columns book of
        None \<Rightarrow> (Inl ErrDatabaseError, db)
      | Some stored \<Rightarrow>
          if stmt_fails e then (Inl ErrDatabaseError, db)
          else
            (let db' = map (update_row e (stored\<lparr>ID := bid\<rparr>)) db in
             if next_fails e then (Inl ErrBookNotFound, db')
             else case filter (\<lambda>row. ID row = bid) db' of
                    [] \<Rightarrow> (Inl ErrBookNotFound, db')
                  | row # _ \<Rightarrow>
                      if scan_fails e then (Inl ErrDatabaseError, db') else (Inr row, db')))"
  by (simp add: Update_def NamedQueryContext_UPDATE_def bind_columns_ID rows_Next_def
      rows_StructScan_def Let_def split: option.splits list.splits)

lemma map_update_row_unknown:
  "ID book \<notin> ID ` set db \<Longrightarrow> map (update_row e book) db = db"
  by (induction db) (auto simp: update_row_def)

lemma filter_update_row_unknown:
  "bid \<notin> ID ` set db \<Longrightarrow> filter (\<lambda>row. ID row = bid) (map (update_row e book) db) = []"
  by (induction db) auto

lemma filter_update_row_known:
  "distinct (map ID db) \<Longrightarrow> old \<in> set db \<Longrightarrow> ID old = bid \<Longrightarrow>
   filter (\<lambda>row. ID row = bid) (map (update_row e book) db) = [update_row e book old]"
proof (induction db)
  case Nil
  then show ?case by simp
next
  case (Cons row db)
  show ?case
  proof (cases "row = old")
    case True
    with Cons.prems have "bid \<notin> ID ` set db" by auto
    then show ?thesis
      using True Cons.prems(3) by (simp add: filter_update_row_unknown)
  next
    case False
    with Cons.prems have "old \<in> set db" and "ID row \<noteq> bid" by auto
    with Cons show ?thesis by simp
  qed
qed


text \<open>
  The hypothesis on the ids in \<open>filter_update_row_known\<close> is the table's primary key;
  every statement of the repository keeps it.
\<close>

lemma primary_key_kept:
  assumes "distinct (map ID db)"
  shows "distinct (map ID (snd (Create e book db)))"
    and "distinct (map ID (snd (Update e bid book db)))"
    and "distinct (map ID (snd (Delete e bid db)))"
proof -
  show "distinct (map ID (snd (Create e book db)))"
    using assms by (simp add: Create_cases Let_def split: option.splits)
  have "ID \<circ> update_row e stored = ID" for stored
    by (rule ext) simp
  then show "distinct (map ID (snd (Update e bid book db)))"
    using assms by (simp add: Update_cases Let_def split: option.splits list.splits)
  show "distinct (map ID (snd (Delete e bid db)))"
    using assms by (simp add: Delete_cases distinct_map_filter)
qed

section \<open>Reading one book\<close>

text \<open>
  C3. The claim: read-by-id reports a missing row as BookNotFound and any other storage
  failure as DatabaseError. The code reports every error of the query as BookNotFound:
  with the row of id 1 in the table and the query failing in the driver, GetByID, and
  GetBookByID above it, answer BookNotFound.
\<close>

theorem GetByID_storage_failure_reported_not_found:
  "GetBookByID
     (postgresBookRepository
        \<lparr>CURRENT_TIMESTAMP = 9, uuid_generate_v4 = 2, stmt_fails = True, next_fails = False,
         scan_fails = False, rows_affected_fails = False\<rparr>)
     1
     [\<lparr>ID = 1, Title = runes ''Dune'', Author = runes ''Herbert'', Year = 1965,
       CreatedAt = 5, UpdatedAt = 5\<rparr>]
   = (Inl ErrBookNotFound,
      [\<lparr>ID = 1, Title = runes ''Dune'', Author = runes ''Herbert'', Year = 1965,
        CreatedAt = 5, UpdatedAt = 5\<rparr>])"
  by (simp add: GetBookByID_delegates postgresBookRepository_def GetByID_cases)

section \<open>Updating a book\<close>

text \<open>
  C4, as stated, fails twice. The trigger stores the reading of the clock, which need not
  be later than the previous one: a book created and updated at the same reading 5 keeps
  updated_at = 5. And the title column holds 255 characters: for the valid title "A"
  followed by 255 spaces the update succeeds and returns the title cut to "A" and 254
  spaces, which is not the title of the request.
\<close>

theorem UpdateBook_same_timestamp_counterexample:
  "UpdateBook
     (postgresBookRepository
        \<lparr>CURRENT_TIMESTAMP = 5, uuid_generate_v4 = 2, stmt_fails = False, next_fails = False,
         scan_fails = False, rows_affected_fails = False\<rparr>)
     1
     \<lparr>uTitle = runes ''Dune II'', uAuthor = runes ''Herbert'', uYear = 1969\<rparr>
     [\<lparr>ID = 1, Title = runes ''Dune'', Author = runes ''Herbert'', Year = 1965,
       CreatedAt = 5, UpdatedAt = 5\<rparr>]
   = (Inr \<lparr>ID = 1, Title = runes ''Dune II'', Author = runes ''Herbert'', Year = 1969,
            CreatedAt = 5, UpdatedAt = 5\<rparr>,
      [\<lparr>ID = 1, Title = runes ''Dune II'', Author = runes ''Herbert'', Year = 1969,
        CreatedAt = 5, UpdatedAt = 5\<rparr>])
   \<and> \<not> UpdatedAt \<lparr>ID = 1, Title = runes ''Dune'', Author = runes ''Herbert'', Year = 1965,
                    CreatedAt = 5, UpdatedAt = 5\<rparr>
       < UpdatedAt \<lparr>ID = 1, Title = runes ''Dune II'', Author = runes ''Herbert'', Year = 1969,
                    CreatedAt = 5, UpdatedAt = 5\<rparr>
   \<and> UpdateBookDTO_Validate
       \<lparr>uTitle = 0x41 # replicate 255 0x20, uAuthor = runes ''Herbert'', uYear = 1969\<rparr> = None
   \<and> fst (UpdateBook
       (postgresBookRepository
          \<lparr>CURRENT_TIMESTAMP = 9, uuid_generate_v4 = 2, stmt_fails = False,
           next_fails = False, scan_fails = False, rows_affected_fails = False\<rparr>)
       1
       \<lparr>uTitle = 0x41 # replicate 255 0x20, uAuthor = runes ''Herbert'', uYear = 1969\<rparr>
       [\<lparr>ID = 1, Title = runes ''Dune'', Author = runes ''Herbert'', Year = 1965,
         CreatedAt = 5, UpdatedAt = 5\<rparr>])
     = Inr \<lparr>ID = 1, Title = 0x41 # replicate 254 0x20, Author = runes ''Herbert'',
            Year = 1969, CreatedAt = 5, UpdatedAt = 9\<rparr>
   \<and> 0x41 # replicate 254 0x20 \<noteq> 0x41 # replicate 255 (0x20 :: rune)"
proof -
  have same_reading: "UpdateBook
     (postgresBookRepository
        \<lparr>CURRENT_TIMESTAMP = 5, uuid_generate_v4 = 2, stmt_fails = False, next_fails = False,
         scan_fails = False, rows_affected_fails = False\<rparr>)
     1
     \<lparr>uTitle = runes ''Dune II'', uAuthor = runes ''Herbert'', uYear = 1969\<rparr>
     [\<lparr>ID = 1, Title = runes ''Dune'', Author = runes ''Herbert'', Year = 1965,
       CreatedAt = 5, UpdatedAt = 5\<rparr>]
   = (Inr \<lparr>ID = 1, Title = runes ''Dune II'', Author = runes ''Herbert'', Year = 1969,
            CreatedAt = 5, UpdatedAt = 5\<rparr>,
      [\<lparr>ID = 1, Title = runes ''Dune II'', Author = runes ''Herbert'', Year = 1969,
        CreatedAt = 5, UpdatedAt = 5\<rparr>])"
    by (simp add: UpdateBook_def UpdateBookDTO_Validate_def TrimSpace_def isSpace_def runes_def
        postgresBookRepository_def Update_cases bind_columns_def varchar255_def update_row_def)
  let ?long = "0x41 # replicate 255 (0x20 :: rune)"
  let ?dto = "\<lparr>uTitle = ?long, uAuthor = runes ''Herbert'', uYear = 1969\<rparr>"
  have valid: "UpdateBookDTO_Validate ?dto = None"
    by (simp add: UpdateBookDTO_Validate_def TrimSpace_empty_iff isSpace_def runes_def)
  have cut: "varchar255 ?long = Some (0x41 # replicate 254 0x20)"
    by (simp add: varchar255_def list_all_iff)
  have author: "varchar255 (runes ''Herbert'') = Some (runes ''Herbert'')"
    by (simp add: varchar255_def runes_def)
  have long_title: "fst (UpdateBook
       (postgresBookRepository
          \<lparr>CURRENT_TIMESTAMP = 9, uuid_generate_v4 = 2, stmt_fails = False,
           next_fails = False, scan_fails = False, rows_affected_fails = False\<rparr>)
       1 ?dto
       [\<lparr>ID = 1, Title = runes ''Dune'', Author = runes ''Herbert'', Year = 1965,
         CreatedAt = 5, UpdatedAt = 5\<rparr>])
     = Inr \<lparr>ID = 1, Title = 0x41 # replicate 254 0x20, Author = runes ''Herbert'',
            Year = 1969, CreatedAt = 5, UpdatedAt = 9\<rparr>"
    by (simp add: UpdateBook_delegates [OF valid] postgresBookRepository_def Update_cases
        bind_columns_def cut author update_row_def)
  have differ: "0x41 # replicate 254 0x20 \<noteq> 0x41 # replicate 255 (0x20 :: rune)"
  proof
    assume "0x41 # replicate 254 0x20 = 0x41 # replicate 255 (0x20 :: rune)"
    then have "length (0x41 # replicate 254 (0x20 :: rune)) = length (0x41 # replicate 255 (0x20 :: rune))"
      by (rule arg_cong)
    then show False
      by simp
  qed
  show ?thesis
    using same_reading valid long_title differ by simp
qed

text \<open>
  C4, amended. For a valid update request whose title and author the VARCHAR(255)
  columns accept (at most 255 characters, or longer by spaces only) and a statement that
  runs without a storage failure, on a table whose ids are distinct (the primary key):
  for a known id the returned entity is the stored row, with id and created_at
  unchanged, updated_at set to the store's current timestamp (so strictly greater than
  before whenever that reading is later than the previous updated_at), year equal to the
  request, and title and author equal to the first 255 characters of the request's, hence
  equal to the request's when these have at most 255 characters; an unknown id yields
  BookNotFound and leaves the table as it was.
\<close>

theorem UpdateBook_known_and_unknown_id:
  assumes valid: "UpdateBookDTO_Validate dto = None"
    and ok: "\<not> stmt_fails e" "\<not> next_fails e" "\<not> scan_fails e"
    and fits: "varchar255 (uTitle dto) \<noteq> None" "varchar255 (uAuthor dto) \<noteq> None"
    and pk: "distinct (map ID db)"
  shows "(\<forall>old\<in>set db. ID old = bid \<longrightarrow>
           (\<exists>new db'. UpdateBook (postgresBookRepository e) bid dto db = (Inr new, db') \<and>
              new \<in> set db' \<and>
              ID new = ID old \<and> CreatedAt new = CreatedAt old \<and>
              UpdatedAt new = CURRENT_TIMESTAMP e \<and>
              (UpdatedAt old < CURRENT_TIMESTAMP e \<longrightarrow> UpdatedAt old < UpdatedAt new) \<and>
              Title new = take 255 (uTitle dto) \<and> Author new = take 255 (uAuthor dto) \<and>
              (length (uTitle dto) \<le> 255 \<longrightarrow> Title new = uTitle dto) \<and>
              (length (uAuthor dto) \<le> 255 \<longrightarrow> Author new = uAuthor dto) \<and>
              Year new = uYear dto))
       \<and> (bid \<notin> ID ` set db \<longrightarrow>
            UpdateBook (postgresBookRepository e) bid dto db = (Inl ErrBookNotFound, db))"
proof (intro conjI ballI impI)
  let ?book = "\<lparr>ID = 0, Title = uTitle dto, Author = uAuthor dto, Year = uYear dto,
                CreatedAt = 0, UpdatedAt = 0\<rparr>"
  let ?stored = "\<lparr>ID = bid, Title = take 255 (uTitle dto), Author = take 255 (uAuthor dto),
                  Year = uYear dto, CreatedAt = 0, UpdatedAt = 0\<rparr>"
  have run: "UpdateBook (postgresBookRepository e) bid dto db = Update e bid ?book db"
    by (simp add: UpdateBook_delegates [OF valid] postgresBookRepository_def)
  have bound: "bind_columns ?book =
      Some (?book\<lparr>Title := take 255 (uTitle dto), Author := take 255 (uAuthor dto)\<rparr>)"
    using fits by (simp add: bind_columns_fits)
  have upd: "Update e bid ?book db =
      (case filter (\<lambda>row. ID row = bid) (map (update_row e ?stored) db) of
         [] \<Rightarrow> (Inl ErrBookNotFound, map (update_row e ?stored) db)
       | row # _ \<Rightarrow> (Inr row, map (update_row e ?stored) db))"
    using ok by (simp add: Update_cases bound Let_def split: list.splits)
  {
    fix old
    assume old: "old \<in> set db" "ID old = bid"
    let ?new = "update_row e ?stored old"
    let ?db' = "map (update_row e ?stored) db"
    have "filter (\<lambda>row. ID row = bid) ?db' = [?new]"
      using pk old by (rule filter_update_row_known)
    then have res: "UpdateBook (postgresBookRepository e) bid dto db = (Inr ?new, ?db')"
      by (simp add: run upd)
    have stored: "?new \<in> set ?db'"
      using old(1) by simp
    have fields: "ID ?new = ID old" "CreatedAt ?new = CreatedAt old"
      "UpdatedAt ?new = CURRENT_TIMESTAMP e" "Title ?new = take 255 (uTitle dto)"
      "Author ?new = take 255 (uAuthor dto)" "Year ?new = uYear dto"
      using old(2) by (simp_all add: update_row_def)
    show "\<exists>new db'. UpdateBook (postgresBookRepository e) bid dto db = (Inr new, db') \<and>
              new \<in> set db' \<and>
              ID new = ID old \<and> CreatedAt new = CreatedAt old \<and>
              UpdatedAt new = CURRENT_TIMESTAMP e \<and>
              (UpdatedAt old < CURRENT_TIMESTAMP e \<longrightarrow> UpdatedAt old < UpdatedAt new) \<and>
              Title new = take 255 (uTitle dto) \<and> Author new = take 255 (uAuthor dto) \<and>
              (length (uTitle dto) \<le> 255 \<longrightarrow> Title new = uTitle dto) \<and>
              (length (uAuthor dto) \<le> 255 \<longrightarrow> Author new = uAuthor dto) \<and>
              Year new = uYear dto"
    proof (intro exI [of _ ?new] exI [of _ ?db'] conjI impI)
      show "UpdateBook (postgresBookRepository e) bid dto db = (Inr ?new, ?db')"
        by (rule res)
      show "?new \<in> set ?db'"
        by (rule stored)
      show "ID ?new = ID old" "CreatedAt ?new = CreatedAt old"
        "UpdatedAt ?new = CURRENT_TIMESTAMP e" "Title ?new = take 255 (uTitle dto)"
        "Author ?new = take 255 (uAuthor dto)" "Year ?new = uYear dto"
        by (rule fields)+
      show "UpdatedAt old < UpdatedAt ?new" if "UpdatedAt old < CURRENT_TIMESTAMP e"
        using that by (simp add: fields)
      show "Title ?new = uTitle dto" if "length (uTitle dto) \<le> 255"
        using that fields(4) by simp
      show "Author ?new = uAuthor dto" if "length (uAuthor dto) \<le> 255"
        using that fields(5) by simp
    qed
  }
  {
    assume unknown: "bid \<notin> ID ` set db"
    then have "map (update_row e ?stored) db = db"
      by (simp add: map_update_row_unknown)
    moreover have "filter (\<lambda>row. ID row = bid) db = []"
      using unknown by (auto simp: filter_empty_conv)
    ultimately have "Update e bid ?book db = (Inl ErrBookNotFound, db)"
      by (simp add: upd)
    then show "UpdateBook (postgresBookRepository e) bid dto db = (Inl ErrBookNotFound, db)"
      using run by simp
  }
qed

theorem UpdateBook_known_and_unknown_id_witness:
  "(\<exists>new db'.
      UpdateBook
        (postgresBookRepository
           \<lparr>CURRENT_TIMESTAMP = 9, uuid_generate_v4 = 2, stmt_fails = False, next_fails = False,
            scan_fails = False, rows_affected_fails = False\<rparr>)
        1
        \<lparr>uTitle = runes ''Dune II'', uAuthor = runes ''Herbert'', uYear = 1969\<rparr>
        [\<lparr>ID = 1, Title = runes ''Dune'', Author = runes ''Herbert'', Year = 1965,
          CreatedAt = 5, UpdatedAt = 5\<rparr>]
      = (Inr new, db') \<and>
      new \<in> set db' \<and> ID new = 1 \<and> CreatedAt new = 5 \<and> UpdatedAt new = 9 \<and>
      5 < UpdatedAt new \<and>
      Title new = runes ''Dune II'' \<and> Author new = runes ''Herbert'' \<and> Year new = 1969)
   \<and> UpdateBook
        (postgresBookRepository
           \<lparr>CURRENT_TIMESTAMP = 9, uuid_generate_v4 = 2, stmt_fails = False, next_fails = False,
            scan_fails = False, rows_affected_fails = False\<rparr>)
        3
        \<lparr>uTitle = runes ''Dune II'', uAuthor = runes ''Herbert'', uYear = 1969\<rparr>
        [\<lparr>ID = 1, Title = runes ''Dune'', Author = runes ''Herbert'', Year = 1965,
          CreatedAt = 5, UpdatedAt = 5\<rparr>]
      = (Inl ErrBookNotFound,
         [\<lparr>ID = 1, Title = runes ''Dune'', Author = runes ''Herbert'', Year = 1965,
           CreatedAt = 5, UpdatedAt = 5\<rparr>])"
proof -
  let ?e = "\<lparr>CURRENT_TIMESTAMP = 9, uuid_generate_v4 = 2, stmt_fails = False, next_fails = False,
            scan_fails = False, rows_affected_fails = False\<rparr>"
  let ?dto = "\<lparr>uTitle = runes ''Dune II'', uAuthor = runes ''Herbert'', uYear = 1969\<rparr>"
  let ?old = "\<lparr>ID = 1, Title = runes ''Dune'', Author = runes ''Herbert'', Year = 1965,
          CreatedAt = 5, UpdatedAt = 5\<rparr>"
  have valid: "UpdateBookDTO_Validate ?dto = None"
    by (simp add: UpdateBookDTO_Validate_def TrimSpace_def isSpace_def runes_def)
  have ok: "\<not> stmt_fails ?e" "\<not> next_fails ?e" "\<not> scan_fails ?e"
    by simp_all
  have fits: "varchar255 (uTitle ?dto) \<noteq> None" "varchar255 (uAuthor ?dto) \<noteq> None"
    by (simp_all add: varchar255_def runes_def)
  have pk: "distinct (map ID [?old])"
    by simp
  have short: "take 255 (runes ''Dune II'') = runes ''Dune II''"
    "take 255 (runes ''Herbert'') = runes ''Herbert''"
    by (simp_all add: runes_def)
  from UpdateBook_known_and_unknown_id [OF valid ok fits pk, of 1]
  obtain new db' where known:
    "UpdateBook (postgresBookRepository ?e) 1 ?dto [?old] = (Inr new, db')"
    "new \<in> set db'" "ID new = 1" "CreatedAt new = 5" "UpdatedAt new = 9"
    "Title new = take 255 (runes ''Dune II'')" "Author new = take 255 (runes ''Herbert'')"
    "Year new = 1969"
    by auto
  from UpdateBook_known_and_unknown_id [OF valid ok fits pk, of 3]
  have unknown: "UpdateBook (postgresBookRepository ?e) 3 ?dto [?old] = (Inl ErrBookNotFound, [?old])"
    by simp
  show ?thesis
  proof (intro conjI exI [of _ new] exI [of _ db'])
    show "UpdateBook (postgresBookRepository ?e) 1 ?dto [?old] = (Inr new, db')"
      by (rule known)
    show "new \<in> set db'" "ID new = 1" "CreatedAt new = 5" "UpdatedAt new = 9" "Year new = 1969"
      by (rule known)+
    show "5 < UpdatedAt new"
      by (simp add: known)
    show "Title new = runes ''Dune II''" "Author new = runes ''Herbert''"
      by (simp_all add: known short)
    show "UpdateBook (postgresBookRepository ?e) 3 ?dto [?old] = (Inl ErrBookNotFound, [?old])"
      by (rule unknown)
  qed
qed

section \<open>Deleting a book\<close>



section \<open>Listing the books\<close>

text \<open>
  C6. When the query does not fail, ListBooks (GetAllBooks) returns exactly the stored
  books, each as often as it is stored, ordered by created_at descending, and leaves the
  table as it was; on an empty store the answer is the empty sequence and no error.
\<close>

theorem GetAllBooks_newest_first:
  assumes "\<not> stmt_fails e"
  shows "(\<exists>books. GetAllBooks (postgresBookRepository e) db = (Inr books, db) \<and>
            mset books = mset db \<and>
            sorted_wrt (\<lambda>a b. CreatedAt b \<le> CreatedAt a) books)
       \<and> GetAllBooks (postgresBookRepository e) [] = (Inr [], [])"
proof
  have run: "GetAllBooks (postgresBookRepository e) t = (Inr (rev (sort_key CreatedAt t)), t)" for t
    using assms
    by (simp add: GetAllBooks_delegates postgresBookRepository_def GetAll_def
        SelectContext_SELECT_def)
  let ?books = "rev (sort_key CreatedAt db)"
  have "sorted (map CreatedAt (sort_key CreatedAt db))"
    by (rule sorted_sort_key)
  then have "sorted_wrt (\<lambda>a b. CreatedAt b \<le> CreatedAt a) ?books"
    by (simp add: sorted_wrt_rev sorted_map)
  moreover have "mset ?books = mset db"
    by simp
  ultimately show "\<exists>books. GetAllBooks (postgresBookRepository e) db = (Inr books, db) \<and>
           mset books = mset db \<and>
           sorted_wrt (\<lambda>a b. CreatedAt b \<le> CreatedAt a) books"
    using run by blast
  show "GetAllBooks (postgresBookRepository e) [] = (Inr [], [])"
    using run [of "[]"] by simp
qed

theorem GetAllBooks_newest_first_witness:
  "(\<exists>books.
      GetAllBooks
        (postgresBookRepository
           \<lparr>CURRENT_TIMESTAMP = 9, uuid_generate_v4 = 3, stmt_fails = False,
            next_fails = False, scan_fails = False, rows_affected_fails = False\<rparr>)
        [\<lparr>ID = 1, Title = runes ''Dune'', Author = runes ''Herbert'', Year = 1965,
          CreatedAt = 5, UpdatedAt = 5\<rparr>,
         \<lparr>ID = 2, Title = runes ''Emma'', Author = runes ''Austen'', Year = 1815,
          CreatedAt = 8, UpdatedAt = 8\<rparr>]
      = (Inr books,
         [\<lparr>ID = 1, Title = runes ''Dune'', Author = runes ''Herbert'', Year = 1965,
           CreatedAt = 5, UpdatedAt = 5\<rparr>,
          \<lparr>ID = 2, Title = runes ''Emma'', Author = runes ''Austen'', Year = 1815,
           CreatedAt = 8, UpdatedAt = 8\<rparr>]) \<and>
      mset books =
        mset [\<lparr>ID = 1, Title = runes ''Dune'', Author = runes ''Herbert'', Year = 1965,
               CreatedAt = 5, UpdatedAt = 5\<rparr>,
              \<lparr>ID = 2, Title = runes ''Emma'', Author = runes ''Austen'', Year = 1815,
               CreatedAt = 8, UpdatedAt = 8\<rparr>] \<and>
      sorted_wrt (\<lambda>a b. CreatedAt b \<le> CreatedAt a) books)
   \<and> GetAllBooks
       (postgresBookRepository
          \<lparr>CURRENT_TIMESTAMP = 9, uuid_generate_v4 = 3, stmt_fails = False,
           next_fails = False, scan_fails = False, rows_affected_fails = False\<rparr>)
       []
     = (Inr [], [])
   \<and> fst (GetAllBooks
       (postgresBookRepository
          \<lparr>CURRENT_TIMESTAMP = 9, uuid_generate_v4 = 3, stmt_fails = False,
           next_fails = False, scan_fails = False, rows_affected_fails = False\<rparr>)
       [\<lparr>ID = 1, Title = runes ''Dune'', Author = runes ''Herbert'', Year = 1965,
         CreatedAt = 5, UpdatedAt = 5\<rparr>,
        \<lparr>ID = 2, Title = runes ''Emma'', Author = runes ''Austen'', Year = 1815,
         CreatedAt = 8, UpdatedAt = 8\<rparr>])
     = Inr [\<lparr>ID = 2, Title = runes ''Emma'', Author = runes ''Austen'', Year = 1815,
             CreatedAt = 8, UpdatedAt = 8\<rparr>,
            \<lparr>ID = 1, Title = runes ''Dune'', Author = runes ''Herbert'', Year = 1965,
             CreatedAt = 5, UpdatedAt = 5\<rparr>]"
proof -
  let ?e = "\<lparr>CURRENT_TIMESTAMP = 9, uuid_generate_v4 = 3, stmt_fails = False,
            next_fails = False, scan_fails = False, rows_affected_fails = False\<rparr>"
  let ?db = "[\<lparr>ID = 1, Title = runes ''Dune'', Author = runes ''Herbert'', Year = 1965,
          CreatedAt = 5, UpdatedAt = 5\<rparr>,
         \<lparr>ID = 2, Title = runes ''Emma'', Author = runes ''Austen'', Year = 1815,
          CreatedAt = 8, UpdatedAt = 8\<rparr>]"
  have ok: "\<not> stmt_fails ?e"
    by simp
  have order: "fst (GetAllBooks (postgresBookRepository ?e) ?db) =
      Inr [\<lparr>ID = 2, Title = runes ''Emma'', Author = runes ''Austen'', Year = 1815,
             CreatedAt = 8, UpdatedAt = 8\<rparr>,
            \<lparr>ID = 1, Title = runes ''Dune'', Author = runes ''Herbert'', Year = 1965,
             CreatedAt = 5, UpdatedAt = 5\<rparr>]"
    by (simp add: GetAllBooks_delegates postgresBookRepository_def GetAll_def
        SelectContext_SELECT_def)
  show ?thesis
    using GetAllBooks_newest_first [OF ok, of ?db] order by blast
qed

section \<open>Creating a book\<close>

text \<open>
  C9. The claim: the repository's create either returns the stored row or reports
  DatabaseError, and never reports success without the stored row. The code checks
  \<open>rows.Next()\<close> but has no branch for its answering false: when the row cannot be
  fetched after the INSERT was accepted, Create returns the zero-valued book with no
  error, while the row is in the table.
\<close>

theorem Create_success_without_stored_row:
  "Create
     \<lparr>CURRENT_TIMESTAMP = 9, uuid_generate_v4 = 3, stmt_fails = False, next_fails = True,
      scan_fails = False, rows_affected_fails = False\<rparr>
     \<lparr>ID = 7, Title = runes ''Dune'', Author = runes ''Herbert'', Year = 1965,
      CreatedAt = 0, UpdatedAt = 0\<rparr>
     []
   = (Inr \<lparr>ID = 0, Title = [], Author = [], Year = 0, CreatedAt = 0, UpdatedAt = 0\<rparr>,
      [\<lparr>ID = 3, Title = runes ''Dune'', Author = runes ''Herbert'', Year = 1965,
        CreatedAt = 9, UpdatedAt = 9\<rparr>])"
  by (simp add: Create_cases bind_columns_def varchar255_def runes_def zeroBook_def)

section \<open>The create handler\<close>

text \<open>
  C8, as stated, fails: for the body \<open>{title:"", author:"X", year:2000}\<close> the handler
  writes the error kind "Validation failed", not "VALIDATION_ERROR".
\<close>

theorem CreateBook_handler_error_kind_counterexample:
  "Error (body (fst (bookHandler_CreateBook
       (Inr \<lparr>cTitle = [], cAuthor = runes ''X'', cYear = 2000\<rparr>) 7
       (postgresBookRepository
          \<lparr>CURRENT_TIMESTAMP = 9, uuid_generate_v4 = 3, stmt_fails = False,
           next_fails = False, scan_fails = False, rows_affected_fails = False\<rparr>)
       []))) = ''Validation failed''
   \<and> Error (body (fst (bookHandler_CreateBook
       (Inr \<lparr>cTitle = [], cAuthor = runes ''X'', cYear = 2000\<rparr>) 7
       (postgresBookRepository
          \<lparr>CURRENT_TIMESTAMP = 9, uuid_generate_v4 = 3, stmt_fails = False,
           next_fails = False, scan_fails = False, rows_affected_fails = False\<rparr>)
       []))) \<noteq> ''VALIDATION_ERROR''"
  by (simp add: bookHandler_CreateBook_def CreateBook_def CreateBookDTO_Validate_def
      TrimSpace_def)

text \<open>
  C8, amended. A POST /books request whose body binds to a creation request with an empty
  title is answered with status 400 and an error body whose error field is
  "Validation failed" and whose message is "title cannot be empty"; the state comes back
  unchanged for every repository, so no row is created.
\<close>

theorem CreateBook_handler_empty_title:
  assumes "cTitle dto = []"
  shows "bookHandler_CreateBook (Inr dto) new_uuid bookRepo s =
           (\<lparr>status = 400,
             body = ErrorResponse ''Validation failed'' ''title cannot be empty''\<rparr>, s)"
  using assms
  by (simp add: bookHandler_CreateBook_def CreateBook_def CreateBookDTO_Validate_def
      TrimSpace_def)

theorem CreateBook_handler_empty_title_witness:
  "bookHandler_CreateBook (Inr \<lparr>cTitle = [], cAuthor = runes ''X'', cYear = 2000\<rparr>) 7
     (postgresBookRepository
        \<lparr>CURRENT_TIMESTAMP = 9, uuid_generate_v4 = 3, stmt_fails = False,
         next_fails = False, scan_fails = False, rows_affected_fails = False\<rparr>)
     []
   = (\<lparr>status = 400,
       body = ErrorResponse ''Validation failed'' ''title cannot be empty''\<rparr>, [])"
  by (rule CreateBook_handler_empty_title) simp

section \<open>Persisted rows are well-formed\<close>

lemma valid_fields_ToBook:
  "CreateBookDTO_Validate dto = None \<Longrightarrow> valid_fields (ToBook new_uuid dto)"
  by (simp add: CreateBookDTO_Validate_def valid_fields_def ToBook_def
      TrimSpace_TrimSpace_nonempty split: if_splits)

lemma valid_fields_update_entity:
  "UpdateBookDTO_Validate dto = None \<Longrightarrow>
   valid_fields \<lparr>ID = 0, Title = uTitle dto, Author = uAuthor dto, Year = uYear dto,
                 CreatedAt = 0, UpdatedAt = 0\<rparr>"
  by (simp add: UpdateBookDTO_Validate_def valid_fields_def split: if_splits)

lemma valid_fields_bind_columns:
  assumes "valid_fields book" and "bind_columns book = Some stored"
  shows "valid_fields stored"
proof -
  from bind_columns_fields [OF assms(2)]
  have year: "Year stored = Year book"
    and title: "varchar255 (Title book) = Some (Title stored)"
    and author: "varchar255 (Author book) = Some (Author stored)"
    by simp_all
  from assms(1) have "TrimSpace (Title book) \<noteq> []" and "TrimSpace (Author book) \<noteq> []"
    by (simp_all add: valid_fields_def)
  then have "TrimSpace (Title stored) \<noteq> []" and "TrimSpace (Author stored) \<noteq> []"
    using title author by (simp_all add: varchar255_nonblank)
  with assms(1) year show ?thesis
    by (simp add: valid_fields_def)
qed

lemma valid_fields_update_row:
  "valid_fields stored \<Longrightarrow> valid_fields row \<Longrightarrow>
   valid_fields (update_row e (stored\<lparr>ID := bid\<rparr>) row)"
  by (simp add: valid_fields_def update_row_def)

lemma Create_table_valid:
  assumes "valid_fields book" and "table_valid db"
  shows "table_valid (snd (Create e book db))"
proof (cases "bind_columns book")
  case None
  with assms(2) show ?thesis
    by (simp add: Create_cases)
next
  case (Some stored)
  with assms(1) have "valid_fields stored"
    by (simp add: valid_fields_bind_columns)
  with assms(2) Some show ?thesis
    by (simp add: Create_cases table_valid_def valid_fields_def Let_def)
qed

lemma Update_table_valid:
  assumes "valid_fields book" and "table_valid db"
  shows "table_valid (snd (Update e bid book db))"
proof (cases "bind_columns book")
  case None
  with assms(2) show ?thesis
    by (simp add: Update_cases)
next
  case (Some stored)
  with assms(1) have "valid_fields stored"
    by (simp add: valid_fields_bind_columns)
  with assms(2) Some show ?thesis
    by (auto simp: Update_cases table_valid_def list_all_iff Let_def valid_fields_update_row
        split: list.splits)
qed

lemma Delete_table_valid: "table_valid db \<Longrightarrow> table_valid (snd (Delete e bid db))"
  by (auto simp: Delete_cases table_valid_def list_all_iff)

lemma CreateBook_table_valid:
  "table_valid db \<Longrightarrow> table_valid (snd (CreateBook new_uuid (postgresBookRepository e) dto db))"
proof (cases "CreateBookDTO_Validate dto")
  case None
  then show "table_valid db \<Longrightarrow> ?thesis"
    by (simp add: CreateBook_delegates postgresBookRepository_def Create_table_valid
        valid_fields_ToBook)
next
  case (Some err)
  then show "table_valid db \<Longrightarrow> ?thesis"
    by (simp add: CreateBook_rejects)
qed

lemma UpdateBook_table_valid:
  "table_valid db \<Longrightarrow> table_valid (snd (UpdateBook (postgresBookRepository e) bid dto db))"
proof (cases "UpdateBookDTO_Validate dto")
  case None
  then show "table_valid db \<Longrightarrow> ?thesis"
    by (simp add: UpdateBook_delegates postgresBookRepository_def Update_table_valid
        valid_fields_update_entity)
next
  case (Some err)
  then show "table_valid db \<Longrightarrow> ?thesis"
    by (simp add: UpdateBook_rejects)
qed

text \<open>
  C7. A creation or update request that passes validation reaches the repository as one
  book, the same for every repository, whose title and author are not empty after
  trimming and whose year lies in 1000..2034. On the store, every use case keeps the table valid: if no row has a blank
  title or author or a year out of range before the operation, none has after it.
\<close>

theorem persisted_fields_valid:
  "(CreateBookDTO_Validate c = None \<longrightarrow>
      valid_fields (ToBook new_uuid c) \<and>
      (\<forall>(bookRepo :: 's BookRepository) s.
         CreateBook new_uuid bookRepo c s = repo_Create bookRepo (ToBook new_uuid c) s))
   \<and> (UpdateBookDTO_Validate u = None \<longrightarrow>
      valid_fields \<lparr>ID = 0, Title = uTitle u, Author = uAuthor u, Year = uYear u,
                    CreatedAt = 0, UpdatedAt = 0\<rparr> \<and>
      (\<forall>(bookRepo :: 's BookRepository) s.
         UpdateBook bookRepo bid u s =
           repo_Update bookRepo bid
             \<lparr>ID = 0, Title = uTitle u, Author = uAuthor u, Year = uYear u,
              CreatedAt = 0, UpdatedAt = 0\<rparr> s))
   \<and> (table_valid db \<longrightarrow>
      table_valid (snd (CreateBook new_uuid (postgresBookRepository e) c db)) \<and>
      table_valid (snd (UpdateBook (postgresBookRepository e) bid u db)) \<and>
      table_valid (snd (DeleteBook (postgresBookRepository e) bid db)) \<and>
      table_valid (snd (GetBookByID (postgresBookRepository e) bid db)) \<and>
      table_valid (snd (GetAllBooks (postgresBookRepository e) db)))"
proof (intro conjI impI allI)
  assume c: "CreateBookDTO_Validate c = None"
  show "valid_fields (ToBook new_uuid c)"
    using c by (rule valid_fields_ToBook)
  show "CreateBook new_uuid bookRepo c s = repo_Create bookRepo (ToBook new_uuid c) s"
    for bookRepo :: "'s BookRepository" and s
    using c by (rule CreateBook_delegates)
next
  assume u: "UpdateBookDTO_Validate u = None"
  show "valid_fields \<lparr>ID = 0, Title = uTitle u, Author = uAuthor u, Year = uYear u,
                    CreatedAt = 0, UpdatedAt = 0\<rparr>"
    using u by (rule valid_fields_update_entity)
  show "UpdateBook bookRepo bid u s =
           repo_Update bookRepo bid
             \<lparr>ID = 0, Title = uTitle u, Author = uAuthor u, Year = uYear u,
              CreatedAt = 0, UpdatedAt = 0\<rparr> s"
    for bookRepo :: "'s BookRepository" and s
    using u by (rule UpdateBook_delegates)
next
  assume inv: "table_valid db"
  show "table_valid (snd (CreateBook new_uuid (postgresBookRepository e) c db))"
    using inv by (rule CreateBook_table_valid)
  show "table_valid (snd (UpdateBook (postgresBookRepository e) bid u db))"
    using inv by (rule UpdateBook_table_valid)
  show "table_valid (snd (DeleteBook (postgresBookRepository e) bid db))"
    using inv by (simp add: DeleteBook_delegates postgresBookRepository_def Delete_table_valid)
  show "table_valid (snd (GetBookByID (postgresBookRepository e) bid db))"
    using inv
    by (simp add: GetBookByID_delegates postgresBookRepository_def GetByID_cases
        split: list.splits)
  show "table_valid (snd (GetAllBooks (postgresBookRepository e) db))"
    using inv
    by (simp add: GetAllBooks_delegates postgresBookRepository_def GetAll_def
        split: sum.splits)
qed


theorem persisted_fields_valid_witness:
  "valid_fields (ToBook 7 \<lparr>cTitle = runes '' Emma '', cAuthor = runes ''Austen'', cYear = 1815\<rparr>)
   \<and> valid_fields \<lparr>ID = 0, Title = runes '' Dune '', Author = runes ''Herbert'', Year = 1965,
                   CreatedAt = 0, UpdatedAt = 0\<rparr>
   \<and> table_valid (snd (CreateBook 7
        (postgresBookRepository
           \<lparr>CURRENT_TIMESTAMP = 9, uuid_generate_v4 = 3, stmt_fails = False,
            next_fails = False, scan_fails = False, rows_affected_fails = False\<rparr>)
        \<lparr>cTitle = runes '' Emma '', cAuthor = runes ''Austen'', cYear = 1815\<rparr>
        [\<lparr>ID = 1, Title = runes ''Dune'', Author = runes ''Herbert'', Year = 1965,
          CreatedAt = 5, UpdatedAt = 5\<rparr>]))
   \<and> table_valid (snd (UpdateBook
        (postgresBookRepository
           \<lparr>CURRENT_TIMESTAMP = 9, uuid_generate_v4 = 3, stmt_fails = False,
            next_fails = False, scan_fails = False, rows_affected_fails = False\<rparr>)
        1
        \<lparr>uTitle = runes '' Dune '', uAuthor = runes ''Herbert'', uYear = 1965\<rparr>
        [\<lparr>ID = 1, Title = runes ''Dune'', Author = runes ''Herbert'', Year = 1965,
          CreatedAt = 5, UpdatedAt = 5\<rparr>]))"
proof -
  let ?e = "\<lparr>CURRENT_TIMESTAMP = 9, uuid_generate_v4 = 3, stmt_fails = False,
            next_fails = False, scan_fails = False, rows_affected_fails = False\<rparr>"
  let ?c = "\<lparr>cTitle = runes '' Emma '', cAuthor = runes ''Austen'', cYear = 1815\<rparr>"
  let ?u = "\<lparr>uTitle = runes '' Dune '', uAuthor = runes ''Herbert'', uYear = 1965\<rparr>"
  let ?db = "[\<lparr>ID = 1, Title = runes ''Dune'', Author = runes ''Herbert'', Year = 1965,
          CreatedAt = 5, UpdatedAt = 5\<rparr>]"
  have c: "CreateBookDTO_Validate ?c = None"
    by (simp add: CreateBookDTO_Validate_def TrimSpace_def isSpace_def runes_def)
  have u: "UpdateBookDTO_Validate ?u = None"
    by (simp add: UpdateBookDTO_Validate_def TrimSpace_def isSpace_def runes_def)
  have inv: "table_valid ?db"
    by (simp add: table_valid_def valid_fields_def TrimSpace_def isSpace_def runes_def)
  note all = persisted_fields_valid [where 's = table, of ?c 7 ?u 1 ?db ?e]
  note created = all [THEN conjunct1, THEN mp, OF c, THEN conjunct1]
  note updated = all [THEN conjunct2, THEN conjunct1, THEN mp, OF u, THEN conjunct1]
  note kept = all [THEN conjunct2, THEN conjunct2, THEN mp, OF inv]
  from created updated kept show ?thesis
    by simp
qed

section \<open>Trimming on create, not on update\<close>

lemma Create_stores:
  "\<not> stmt_fails e \<Longrightarrow> uuid_generate_v4 e \<notin> ID ` set db \<Longrightarrow> bind_columns book = Some stored \<Longrightarrow>
   snd (Create e book db) =
     db @ [\<lparr>ID = uuid_generate_v4 e, Title = Title stored, Author = Author stored,
             Year = Year stored, CreatedAt = CURRENT_TIMESTAMP e,
             UpdatedAt = CURRENT_TIMESTAMP e\<rparr>]"
  by (simp add: Create_cases Let_def)

lemma Update_stores:
  "\<not> stmt_fails e \<Longrightarrow> bind_columns book = Some stored \<Longrightarrow>
   snd (Update e bid book db) = map (update_row e (stored\<lparr>ID := bid\<rparr>)) db"
  by (simp add: Update_cases Let_def split: list.splits)

lemma TrimSpace_trailing_space:
  assumes "\<not> isSpace x" and "0 < n"
  shows "TrimSpace (replicate n x @ [0x20]) = replicate n x"
proof -
  from assms(2) obtain m where n: "n = Suc m"
    by (cases n) simp_all
  have front: "dropWhile isSpace (replicate n x @ [0x20]) = replicate n x @ [0x20]"
    using assms(1) by (simp add: n)
  have "rev (replicate n x @ [0x20]) = 0x20 # replicate n x"
    by simp
  moreover have "dropWhile isSpace (0x20 # replicate n x) = replicate n x"
    using assms(1) by (simp add: n isSpace_def)
  ultimately show ?thesis
    by (simp add: TrimSpace_def front)
qed

lemma take_differs_from_TrimSpace:
  assumes "TrimSpace t \<noteq> []" and "isSpace (hd t) \<or> isSpace (last (take 255 t))"
  shows "take 255 t \<noteq> TrimSpace t"
proof
  assume eq: "take 255 t = TrimSpace t"
  have "hd (take 255 t) = hd t"
    by simp
  with eq TrimSpace_hd [OF assms(1)] TrimSpace_last [OF assms(1)] assms(2) show False
    by simp
qed

text \<open>
  C10, as stated, fails: the update path hands the title on untrimmed, but the title
  column cuts trailing spaces past 255 characters. For the title of 255 letters "A"
  followed by one space, which carries surrounding white space and is not blank, the
  update path and the create path persist the same string, the 255 letters.
\<close>

theorem update_create_same_persisted_title_counterexample:
  "isSpace (last (replicate 255 0x41 @ [0x20]))
   \<and> UpdateBookDTO_Validate
       \<lparr>uTitle = replicate 255 0x41 @ [0x20], uAuthor = runes ''X'', uYear = 2000\<rparr> = None
   \<and> snd (UpdateBook
       (postgresBookRepository
          \<lparr>CURRENT_TIMESTAMP = 9, uuid_generate_v4 = 3, stmt_fails = False,
           next_fails = False, scan_fails = False, rows_affected_fails = False\<rparr>)
       1
       \<lparr>uTitle = replicate 255 0x41 @ [0x20], uAuthor = runes ''X'', uYear = 2000\<rparr>
       [\<lparr>ID = 1, Title = runes ''Emma'', Author = runes ''Austen'', Year = 1815,
         CreatedAt = 5, UpdatedAt = 5\<rparr>])
     = [\<lparr>ID = 1, Title = replicate 255 0x41, Author = runes ''X'', Year = 2000,
         CreatedAt = 5, UpdatedAt = 9\<rparr>]
   \<and> snd (CreateBook 7
       (postgresBookRepository
          \<lparr>CURRENT_TIMESTAMP = 9, uuid_generate_v4 = 3, stmt_fails = False,
           next_fails = False, scan_fails = False, rows_affected_fails = False\<rparr>)
       \<lparr>cTitle = replicate 255 0x41 @ [0x20], cAuthor = runes ''X'', cYear = 2000\<rparr>
       [\<lparr>ID = 1, Title = runes ''Emma'', Author = runes ''Austen'', Year = 1815,
         CreatedAt = 5, UpdatedAt = 5\<rparr>])
     = [\<lparr>ID = 1, Title = runes ''Emma'', Author = runes ''Austen'', Year = 1815,
         CreatedAt = 5, UpdatedAt = 5\<rparr>,
        \<lparr>ID = 3, Title = replicate 255 0x41, Author = runes ''X'', Year = 2000,
         CreatedAt = 9, UpdatedAt = 9\<rparr>]"
proof -
  let ?e = "\<lparr>CURRENT_TIMESTAMP = 9, uuid_generate_v4 = 3, stmt_fails = False,
           next_fails = False, scan_fails = False, rows_affected_fails = False\<rparr>"
  let ?t = "replicate 255 (0x41 :: rune) @ [0x20]"
  let ?u = "\<lparr>uTitle = ?t, uAuthor = runes ''X'', uYear = 2000\<rparr>"
  let ?c = "\<lparr>cTitle = ?t, cAuthor = runes ''X'', cYear = 2000\<rparr>"
  let ?db = "[\<lparr>ID = 1, Title = runes ''Emma'', Author = runes ''Austen'', Year = 1815,
         CreatedAt = 5, UpdatedAt = 5\<rparr>]"
  have letter: "\<not> isSpace 0x41"
    by (simp add: isSpace_def)
  have trimmed: "TrimSpace ?t = replicate 255 0x41"
    using letter by (rule TrimSpace_trailing_space) simp
  have author: "TrimSpace (runes ''X'') = runes ''X''"
    by (simp add: TrimSpace_def isSpace_def runes_def)
  have spaced: "isSpace (last ?t)"
    by (simp add: isSpace_def)
  have nonblank: "TrimSpace (runes ''X'') \<noteq> []"
    by (simp add: TrimSpace_def isSpace_def runes_def)
  have u: "UpdateBookDTO_Validate ?u = None"
    by (simp add: UpdateBookDTO_Validate_def trimmed nonblank)
  have c: "CreateBookDTO_Validate ?c = None"
    by (simp add: CreateBookDTO_Validate_def trimmed nonblank)
  have cut: "varchar255 ?t = Some (replicate 255 0x41)"
    by (simp add: varchar255_def)
  have kept: "varchar255 (replicate 255 (0x41 :: rune)) = Some (replicate 255 0x41)"
    "varchar255 (runes ''X'') = Some (runes ''X'')"
    by (simp_all add: varchar255_def runes_def)
  have updated: "snd (UpdateBook (postgresBookRepository ?e) 1 ?u ?db)
     = [\<lparr>ID = 1, Title = replicate 255 0x41, Author = runes ''X'', Year = 2000,
         CreatedAt = 5, UpdatedAt = 9\<rparr>]"
    by (simp add: UpdateBook_delegates [OF u] postgresBookRepository_def Update_cases
        bind_columns_def cut kept update_row_def)
  have created: "snd (CreateBook 7 (postgresBookRepository ?e) ?c ?db)
     = [\<lparr>ID = 1, Title = runes ''Emma'', Author = runes ''Austen'', Year = 1815,
         CreatedAt = 5, UpdatedAt = 5\<rparr>,
        \<lparr>ID = 3, Title = replicate 255 0x41, Author = runes ''X'', Year = 2000,
         CreatedAt = 9, UpdatedAt = 9\<rparr>]"
    by (simp add: CreateBook_delegates [OF c] postgresBookRepository_def ToBook_def trimmed
        author Create_cases bind_columns_def kept Let_def)
  show ?thesis
    by (intro conjI) (rule spaced u updated created)+
qed

text \<open>
  C10, amended. For a valid request (title and author not blank, year in 1000..2034),
  UpdateBook hands the repository the title and author exactly as supplied, while
  CreateBook hands it their trimmed forms. On the store, when the statement runs and the
  columns accept the values, the rows of the updated id hold the first 255 characters of
  the strings as supplied (the whole strings when they have at most 255), and the created
  row holds the trimmed ones. The two persisted strings differ whenever the supplied
  string starts with white space or its first 255 characters end with white space, so
  for every string of at most 255 characters that carries surrounding white space.
\<close>

theorem update_persists_untrimmed_create_trimmed:
  assumes title: "\<exists>r\<in>set t. \<not> isSpace r"
    and author: "\<exists>r\<in>set a. \<not> isSpace r"
    and year: "1000 \<le> y" "y \<le> 2034"
  shows "(\<forall>(bookRepo :: 's BookRepository) s.
            UpdateBook bookRepo bid \<lparr>uTitle = t, uAuthor = a, uYear = y\<rparr> s =
              repo_Update bookRepo bid
                \<lparr>ID = 0, Title = t, Author = a, Year = y, CreatedAt = 0, UpdatedAt = 0\<rparr> s)
       \<and> (\<forall>(bookRepo :: 's BookRepository) s.
            CreateBook new_uuid bookRepo \<lparr>cTitle = t, cAuthor = a, cYear = y\<rparr> s =
              repo_Create bookRepo
                \<lparr>ID = new_uuid, Title = TrimSpace t, Author = TrimSpace a, Year = y,
                 CreatedAt = 0, UpdatedAt = 0\<rparr> s)
       \<and> (\<not> stmt_fails e \<and> varchar255 t \<noteq> None \<and> varchar255 a \<noteq> None \<longrightarrow>
            (\<forall>row\<in>set (snd (UpdateBook (postgresBookRepository e) bid
                                 \<lparr>uTitle = t, uAuthor = a, uYear = y\<rparr> db)).
               ID row = bid \<longrightarrow> Title row = take 255 t \<and> Author row = take 255 a))
       \<and> (\<not> stmt_fails e \<and> uuid_generate_v4 e \<notin> ID ` set db \<and>
            length (TrimSpace t) \<le> 255 \<and> length (TrimSpace a) \<le> 255 \<longrightarrow>
            snd (CreateBook new_uuid (postgresBookRepository e)
                   \<lparr>cTitle = t, cAuthor = a, cYear = y\<rparr> db) =
              db @ [\<lparr>ID = uuid_generate_v4 e, Title = TrimSpace t, Author = TrimSpace a,
                      Year = y, CreatedAt = CURRENT_TIMESTAMP e,
                      UpdatedAt = CURRENT_TIMESTAMP e\<rparr>])
       \<and> (isSpace (hd t) \<or> isSpace (last (take 255 t)) \<longrightarrow> take 255 t \<noteq> TrimSpace t)
       \<and> (isSpace (hd a) \<or> isSpace (last (take 255 a)) \<longrightarrow> take 255 a \<noteq> TrimSpace a)
       \<and> (length t \<le> 255 \<and> (isSpace (hd t) \<or> isSpace (last t)) \<longrightarrow>
            take 255 t = t \<and> t \<noteq> TrimSpace t)
       \<and> (length a \<le> 255 \<and> (isSpace (hd a) \<or> isSpace (last a)) \<longrightarrow>
            take 255 a = a \<and> a \<noteq> TrimSpace a)"
proof -
  let ?u = "\<lparr>uTitle = t, uAuthor = a, uYear = y\<rparr>"
  let ?c = "\<lparr>cTitle = t, cAuthor = a, cYear = y\<rparr>"
  let ?ubook = "\<lparr>ID = 0, Title = t, Author = a, Year = y, CreatedAt = 0, UpdatedAt = 0\<rparr>"
  let ?cbook = "\<lparr>ID = new_uuid, Title = TrimSpace t, Author = TrimSpace a, Year = y,
                 CreatedAt = 0, UpdatedAt = 0\<rparr>"
  have u: "UpdateBookDTO_Validate ?u = None"
    using assms by (simp add: UpdateBookDTO_Validate_def TrimSpace_empty_iff)
  have c: "CreateBookDTO_Validate ?c = None"
    using assms by (simp add: CreateBookDTO_Validate_def TrimSpace_empty_iff)
  have upd: "UpdateBook bookRepo bid ?u s = repo_Update bookRepo bid ?ubook s"
    for bookRepo :: "'x BookRepository" and s
    using UpdateBook_delegates [OF u] by simp
  have cre: "CreateBook new_uuid bookRepo ?c s = repo_Create bookRepo ?cbook s"
    for bookRepo :: "'x BookRepository" and s
    using CreateBook_delegates [OF c] by (simp add: ToBook_def)
  have f1: "\<forall>(bookRepo :: 's BookRepository) s.
            UpdateBook bookRepo bid ?u s = repo_Update bookRepo bid ?ubook s"
    by (intro allI) (rule upd)
  have f2: "\<forall>(bookRepo :: 's BookRepository) s.
            CreateBook new_uuid bookRepo ?c s = repo_Create bookRepo ?cbook s"
    by (intro allI) (rule cre)
  have f3: "\<not> stmt_fails e \<and> varchar255 t \<noteq> None \<and> varchar255 a \<noteq> None \<longrightarrow>
            (\<forall>row\<in>set (snd (UpdateBook (postgresBookRepository e) bid ?u db)).
               ID row = bid \<longrightarrow> Title row = take 255 t \<and> Author row = take 255 a)"
  proof (intro impI ballI)
    fix row
    assume run: "\<not> stmt_fails e \<and> varchar255 t \<noteq> None \<and> varchar255 a \<noteq> None"
      and row: "row \<in> set (snd (UpdateBook (postgresBookRepository e) bid ?u db))"
      and hit: "ID row = bid"
    let ?stored = "?ubook\<lparr>Title := take 255 t, Author := take 255 a\<rparr>"
    have "bind_columns ?ubook = Some ?stored"
      using run bind_columns_fits [of ?ubook] by simp
    then have "snd (UpdateBook (postgresBookRepository e) bid ?u db) =
        map (update_row e (?stored\<lparr>ID := bid\<rparr>)) db"
      using run by (simp add: upd postgresBookRepository_def Update_stores)
    with row obtain r where r: "r \<in> set db" "row = update_row e (?stored\<lparr>ID := bid\<rparr>) r"
      by auto
    with hit have "ID r = bid"
      by simp
    with r(2) show "Title row = take 255 t \<and> Author row = take 255 a"
      by (simp add: update_row_def)
  qed
  have f4: "\<not> stmt_fails e \<and> uuid_generate_v4 e \<notin> ID ` set db \<and>
            length (TrimSpace t) \<le> 255 \<and> length (TrimSpace a) \<le> 255 \<longrightarrow>
            snd (CreateBook new_uuid (postgresBookRepository e) ?c db) =
              db @ [\<lparr>ID = uuid_generate_v4 e, Title = TrimSpace t, Author = TrimSpace a,
                      Year = y, CreatedAt = CURRENT_TIMESTAMP e,
                      UpdatedAt = CURRENT_TIMESTAMP e\<rparr>]"
  proof
    assume run: "\<not> stmt_fails e \<and> uuid_generate_v4 e \<notin> ID ` set db \<and>
            length (TrimSpace t) \<le> 255 \<and> length (TrimSpace a) \<le> 255"
    then have "bind_columns ?cbook = Some ?cbook"
      by (simp add: bind_columns_def varchar255_short)
    with run show "snd (CreateBook new_uuid (postgresBookRepository e) ?c db) =
              db @ [\<lparr>ID = uuid_generate_v4 e, Title = TrimSpace t, Author = TrimSpace a,
                      Year = y, CreatedAt = CURRENT_TIMESTAMP e,
                      UpdatedAt = CURRENT_TIMESTAMP e\<rparr>]"
      by (simp add: cre postgresBookRepository_def Create_stores)
  qed
  have t_trim: "TrimSpace t \<noteq> []" and a_trim: "TrimSpace a \<noteq> []"
    using title author by (simp_all add: TrimSpace_empty_iff)
  have f5: "isSpace (hd t) \<or> isSpace (last (take 255 t)) \<longrightarrow> take 255 t \<noteq> TrimSpace t"
    using take_differs_from_TrimSpace [OF t_trim] by blast
  have f6: "isSpace (hd a) \<or> isSpace (last (take 255 a)) \<longrightarrow> take 255 a \<noteq> TrimSpace a"
    using take_differs_from_TrimSpace [OF a_trim] by blast
  have f7: "length t \<le> 255 \<and> (isSpace (hd t) \<or> isSpace (last t)) \<longrightarrow>
            take 255 t = t \<and> t \<noteq> TrimSpace t"
  proof
    assume h: "length t \<le> 255 \<and> (isSpace (hd t) \<or> isSpace (last t))"
    then have "take 255 t = t"
      by simp
    with h take_differs_from_TrimSpace [OF t_trim] show "take 255 t = t \<and> t \<noteq> TrimSpace t"
      by auto
  qed
  have f8: "length a \<le> 255 \<and> (isSpace (hd a) \<or> isSpace (last a)) \<longrightarrow>
            take 255 a = a \<and> a \<noteq> TrimSpace a"
  proof
    assume h: "length a \<le> 255 \<and> (isSpace (hd a) \<or> isSpace (last a))"
    then have "take 255 a = a"
      by simp
    with h take_differs_from_TrimSpace [OF a_trim] show "take 255 a = a \<and> a \<noteq> TrimSpace a"
      by auto
  qed
  show ?thesis
    by (intro conjI) (rule f1 f2 f3 f4 f5 f6 f7 f8)+
qed

theorem update_persists_untrimmed_create_trimmed_witness:
  "snd (CreateBook 7
     (postgresBookRepository
        \<lparr>CURRENT_TIMESTAMP = 9, uuid_generate_v4 = 3, stmt_fails = False,
         next_fails = False, scan_fails = False, rows_affected_fails = False\<rparr>)
     \<lparr>cTitle = runes '' Dune '', cAuthor = runes ''Herbert'', cYear = 1965\<rparr>
     [\<lparr>ID = 1, Title = runes ''Emma'', Author = runes ''Austen'', Year = 1815,
       CreatedAt = 5, UpdatedAt = 5\<rparr>])
   = [\<lparr>ID = 1, Title = runes ''Emma'', Author = runes ''Austen'', Year = 1815,
       CreatedAt = 5, UpdatedAt = 5\<rparr>,
      \<lparr>ID = 3, Title = runes ''Dune'', Author = runes ''Herbert'', Year = 1965,
       CreatedAt = 9, UpdatedAt = 9\<rparr>]
   \<and> snd (UpdateBook
       (postgresBookRepository
          \<lparr>CURRENT_TIMESTAMP = 9, uuid_generate_v4 = 3, stmt_fails = False,
           next_fails = False, scan_fails = False, rows_affected_fails = False\<rparr>)
       1
       \<lparr>uTitle = runes '' Dune '', uAuthor = runes ''Herbert'', uYear = 1965\<rparr>
       [\<lparr>ID = 1, Title = runes ''Emma'', Author = runes ''Austen'', Year = 1815,
         CreatedAt = 5, UpdatedAt = 5\<rparr>])
     = [\<lparr>ID = 1, Title = runes '' Dune '', Author = runes ''Herbert'', Year = 1965,
         CreatedAt = 5, UpdatedAt = 9\<rparr>]
   \<and> runes '' Dune '' \<noteq> TrimSpace (runes '' Dune '')"
proof -
  let ?e = "\<lparr>CURRENT_TIMESTAMP = 9, uuid_generate_v4 = 3, stmt_fails = False,
            next_fails = False, scan_fails = False, rows_affected_fails = False\<rparr>"
  let ?db = "[\<lparr>ID = 1, Title = runes ''Emma'', Author = runes ''Austen'', Year = 1815,
       CreatedAt = 5, UpdatedAt = 5\<rparr>]"
  let ?t = "runes '' Dune ''"
  let ?a = "runes ''Herbert''"
  have title: "\<exists>r\<in>set ?t. \<not> isSpace r" and author: "\<exists>r\<in>set ?a. \<not> isSpace r"
    by (simp_all add: runes_def isSpace_def)
  have year: "(1000::int) \<le> 1965" "(1965::int) \<le> 2034"
    by simp_all
  note all = update_persists_untrimmed_create_trimmed
    [where 's = table, OF title author year, of 1 7 ?e ?db]
  have trimmed: "TrimSpace ?t = runes ''Dune''" "TrimSpace ?a = ?a"
    by (simp_all add: TrimSpace_def runes_def isSpace_def)
  have run: "\<not> stmt_fails ?e \<and> uuid_generate_v4 ?e \<notin> ID ` set ?db \<and>
      length (TrimSpace ?t) \<le> 255 \<and> length (TrimSpace ?a) \<le> 255"
    by (simp add: trimmed) (simp add: runes_def)
  have spaced: "length ?t \<le> 255 \<and> (isSpace (hd ?t) \<or> isSpace (last ?t))"
    by (simp add: runes_def isSpace_def)
  note created = all [THEN conjunct2, THEN conjunct2, THEN conjunct2, THEN conjunct1,
      THEN mp, OF run]
  note differs = all [THEN conjunct2, THEN conjunct2, THEN conjunct2, THEN conjunct2,
      THEN conjunct2, THEN conjunct2, THEN conjunct1, THEN mp, OF spaced, THEN conjunct2]
  have updated: "snd (UpdateBook (postgresBookRepository ?e) 1
       \<lparr>uTitle = ?t, uAuthor = ?a, uYear = 1965\<rparr> ?db)
     = [\<lparr>ID = 1, Title = ?t, Author = ?a, Year = 1965, CreatedAt = 5, UpdatedAt = 9\<rparr>]"
    by (simp add: UpdateBook_def UpdateBookDTO_Validate_def TrimSpace_def isSpace_def runes_def
        postgresBookRepository_def Update_cases bind_columns_def varchar255_def update_row_def)
  have created': "snd (CreateBook 7 (postgresBookRepository ?e)
       \<lparr>cTitle = ?t, cAuthor = ?a, cYear = 1965\<rparr> ?db)
     = ?db @ [\<lparr>ID = 3, Title = runes ''Dune'', Author = ?a, Year = 1965,
               CreatedAt = 9, UpdatedAt = 9\<rparr>]"
    using created by (simp add: trimmed)
  show ?thesis
    by (intro conjI) (use created' in simp, rule updated, rule differs)
qed

end
